theory Spec2Isabelle
  imports Complex_Main
begin

section \<open>JavaScript values\<close>

text \<open>
  A JavaScript string is a sequence of UTF-16 code units; the field names of the
  workbooks are Chinese, so strings are lists of code units (natural numbers below
  65536) and \<open>ascii\<close> embeds an ASCII literal.

  A JavaScript number is an IEEE 754 double. A finite double is the rational number
  it denotes, and the three special values are kept apart. Every sum, product and
  parsed literal is rounded to the nearest double, ties to even, and overflows to an
  infinity (\<open>round_double\<close> below), as the double arithmetic of JavaScript does. The
  one identification made is that of \<open>-0\<close> with \<open>0\<close>: the program never divides by a
  number and never looks at the sign of a zero.
\<close>

type_synonym jsstring = "nat list"

definition ascii :: "string \<Rightarrow> jsstring" where
  "ascii s = map of_char s"

datatype jsnum = Fin rat | PInf | NInf | NaN

datatype jsval = JUndefined | JNull | JBool bool | JNum jsnum | JStr jsstring

definition isNaN :: "jsnum \<Rightarrow> bool" where
  "isNaN x = (x = NaN)"

fun isFinite :: "jsnum \<Rightarrow> bool" where
  "isFinite (Fin q) = True"
| "isFinite x = False"

fun js_neg :: "jsnum \<Rightarrow> jsnum" where
  "js_neg (Fin q) = Fin (- q)"
| "js_neg PInf = NInf"
| "js_neg NInf = PInf"
| "js_neg NaN = NaN"

subsection \<open>Rounding to a double\<close>

definition pow2 :: "int \<Rightarrow> rat" where
  "pow2 e = (if 0 \<le> e then 2 ^ nat e else 1 / 2 ^ nat (- e))"

text \<open>
  The binary exponent of a positive rational: the \<open>e\<close> with \<open>2^e \<le> q < 2^(e+1)\<close>,
  found by halving or doubling. It is asked for between \<open>2^(-1022)\<close> and \<open>2^1024\<close>
  only, where 1100 steps are more than enough.
\<close>

fun binade :: "nat \<Rightarrow> rat \<Rightarrow> int" where
  "binade 0 q = 0"
| "binade (Suc fuel) q =
    (if 2 \<le> q then binade fuel (q / 2) + 1
     else if q < 1 then binade fuel (q * 2) - 1
     else 0)"

definition round_half_even :: "rat \<Rightarrow> int" where
  "round_half_even t =
    (let f = \<lfloor>t\<rfloor>; r = t - of_int f
     in if r < 1 / 2 then f else if 1 / 2 < r then f + 1 else if even f then f else f + 1)"

text \<open>
  A positive rational rounded to binary64: 53 significant bits at the exponent of
  the number, the exponent being at least \<open>-1022\<close> (below it the doubles are
  subnormal, spaced \<open>2^(-1074)\<close> apart), and an infinity from \<open>2^1024\<close> on.
\<close>

definition round_magnitude :: "rat \<Rightarrow> jsnum" where
  "round_magnitude q =
    (if pow2 1024 \<le> q then PInf
     else
       let e = (if q < pow2 (- 1022) then - 1022 else binade 1100 q);
           quantum = pow2 (e - 52);
           v = of_int (round_half_even (q / quantum)) * quantum
       in if pow2 1024 \<le> v then PInf else Fin v)"

definition round_double :: "rat \<Rightarrow> jsnum" where
  "round_double q =
    (if q = 0 then Fin 0
     else if 0 < q then round_magnitude q
     else js_neg (round_magnitude (- q)))"

text \<open>The operators \<open>+\<close>, \<open>-\<close> and \<open>*\<close> on numbers.\<close>

fun js_add :: "jsnum \<Rightarrow> jsnum \<Rightarrow> jsnum" where
  "js_add NaN y = NaN"
| "js_add x NaN = NaN"
| "js_add (Fin a) (Fin b) = round_double (a + b)"
| "js_add PInf NInf = NaN"
| "js_add NInf PInf = NaN"
| "js_add PInf y = PInf"
| "js_add NInf y = NInf"
| "js_add (Fin a) y = y"

definition js_sub :: "jsnum \<Rightarrow> jsnum \<Rightarrow> jsnum" where
  "js_sub x y = js_add x (js_neg y)"

definition inf_of_sign :: "bool \<Rightarrow> jsnum" where
  "inf_of_sign positive = (if positive then PInf else NInf)"

fun js_mul :: "jsnum \<Rightarrow> jsnum \<Rightarrow> jsnum" where
  "js_mul NaN y = NaN"
| "js_mul x NaN = NaN"
| "js_mul (Fin a) (Fin b) = round_double (a * b)"
| "js_mul (Fin a) PInf = (if a = 0 then NaN else inf_of_sign (0 < a))"
| "js_mul (Fin a) NInf = (if a = 0 then NaN else inf_of_sign (a < 0))"
| "js_mul PInf (Fin b) = (if b = 0 then NaN else inf_of_sign (0 < b))"
| "js_mul NInf (Fin b) = (if b = 0 then NaN else inf_of_sign (b < 0))"
| "js_mul PInf PInf = PInf"
| "js_mul NInf NInf = PInf"
| "js_mul PInf NInf = NInf"
| "js_mul NInf PInf = NInf"

text \<open>Truthiness, as \<open>||\<close>, \<open>!\<close> and \<open>if\<close> test it.\<close>

fun num_truthy :: "jsnum \<Rightarrow> bool" where
  "num_truthy (Fin q) = (q \<noteq> 0)"
| "num_truthy NaN = False"
| "num_truthy x = True"

fun truthy :: "jsval \<Rightarrow> bool" where
  "truthy JUndefined = False"
| "truthy JNull = False"
| "truthy (JBool b) = b"
| "truthy (JNum x) = num_truthy x"
| "truthy (JStr s) = (s \<noteq> [])"

section \<open>String primitives\<close>

text \<open>
  White space and line terminators of ECMAScript, the characters that
  \<open>String.prototype.trim\<close> and \<open>parseFloat\<close> strip: TAB, LF, VT, FF, CR, SP, NBSP,
  U+1680, U+2000 to U+200A, U+2028, U+2029, U+202F, U+205F, U+3000 and U+FEFF.
\<close>

definition is_space :: "nat \<Rightarrow> bool" where
  "is_space c = (c \<in> {9, 10, 11, 12, 13, 32, 160, 5760, 8232, 8233, 8239, 8287, 12288, 65279}
     \<or> (8192 \<le> c \<and> c \<le> 8202))"

definition trim_start :: "jsstring \<Rightarrow> jsstring" where
  "trim_start s = dropWhile is_space s"

definition trim :: "jsstring \<Rightarrow> jsstring" where
  "trim s = rev (dropWhile is_space (rev (dropWhile is_space s)))"

text \<open>\<open>s.replace(/c/g, '')\<close> and \<open>s.replace(/[cd]/g, '')\<close>: every occurrence goes.\<close>

definition remove_all :: "nat set \<Rightarrow> jsstring \<Rightarrow> jsstring" where
  "remove_all cs s = filter (\<lambda>c. c \<notin> cs) s"

text \<open>\<open>s.replace('c', '')\<close> with a string pattern: only the first occurrence goes.\<close>

fun remove_first :: "nat \<Rightarrow> jsstring \<Rightarrow> jsstring" where
  "remove_first c [] = []"
| "remove_first c (x # xs) = (if x = c then xs else x # remove_first c xs)"

definition js_includes :: "jsstring \<Rightarrow> nat \<Rightarrow> bool" where
  "js_includes s c = (c \<in> set s)"

text \<open>
  \<open>toLowerCase\<close> on the letters A to Z. The program only asks whether the lowered
  text contains \<open>w\<close>, and \<open>W\<close> is the one character that lowers to \<open>w\<close>; the other
  characters are left as they are.
\<close>

definition toLowerCase :: "jsstring \<Rightarrow> jsstring" where
  "toLowerCase s = map (\<lambda>c. if 65 \<le> c \<and> c \<le> 90 then c + 32 else c) s"

abbreviation "chr_plus \<equiv> (43 :: nat)"
abbreviation "chr_minus \<equiv> (45 :: nat)"
abbreviation "chr_dot \<equiv> (46 :: nat)"
abbreviation "chr_w \<equiv> (119 :: nat)"
abbreviation "chr_W \<equiv> (87 :: nat)"

subsection \<open>parseFloat\<close>

text \<open>
  The built-in \<open>parseFloat\<close> (ECMA-262, 19.2.4): leading white space is skipped and the
  longest prefix that is a \<open>StrDecimalLiteral\<close> is read: an optional sign, then
  \<open>Infinity\<close>, or digits with an optional fraction and an optional exponent (which
  counts only when it has a digit). No such prefix gives \<open>NaN\<close>. The result is the
  double nearest to the decimal value that was read.
\<close>

definition is_digit :: "nat \<Rightarrow> bool" where
  "is_digit c = (48 \<le> c \<and> c \<le> 57)"

definition digits_value :: "jsstring \<Rightarrow> nat" where
  "digits_value ds = foldl (\<lambda>n c. 10 * n + (c - 48)) 0 ds"

definition scale10 :: "nat \<Rightarrow> int \<Rightarrow> rat" where
  "scale10 m e = (if 0 \<le> e then of_nat m * 10 ^ nat e else of_nat m / 10 ^ nat (- e))"

text \<open>The exponent part at the head of the rest, 0 when there is none.\<close>

definition exponent_part :: "jsstring \<Rightarrow> int" where
  "exponent_part r =
    (case r of
       [] \<Rightarrow> 0
     | c # r1 \<Rightarrow>
        if c = 101 \<or> c = 69 then
          (case r1 of
             [] \<Rightarrow> 0
           | d # r2 \<Rightarrow>
              if d = chr_plus \<or> d = chr_minus then
                (let ds = takeWhile is_digit r2
                 in if ds = [] then 0
                    else if d = chr_minus then - int (digits_value ds)
                    else int (digits_value ds))
              else int (digits_value (takeWhile is_digit r1)))
        else 0)"

definition unsigned_literal :: "jsstring \<Rightarrow> jsnum" where
  "unsigned_literal s =
    (if take 8 s = ascii ''Infinity'' then PInf
     else
       let ip = takeWhile is_digit s; r1 = dropWhile is_digit s
       in case r1 of
            c # r2 \<Rightarrow>
              if c = chr_dot then
                (let fp = takeWhile is_digit r2; r3 = dropWhile is_digit r2
                 in if ip = [] \<and> fp = [] then NaN
                    else round_double (scale10 (digits_value (ip @ fp))
                           (exponent_part r3 - int (length fp))))
              else if ip = [] then NaN
              else round_double (scale10 (digits_value ip) (exponent_part r1))
          | [] \<Rightarrow> if ip = [] then NaN else round_double (of_nat (digits_value ip)))"

definition parseFloat :: "jsstring \<Rightarrow> jsnum" where
  "parseFloat s =
    (case trim_start s of
       [] \<Rightarrow> NaN
     | c # r \<Rightarrow>
        if c = chr_minus then js_neg (unsigned_literal r)
        else if c = chr_plus then unsigned_literal r
        else unsigned_literal (c # r))"

section \<open>NumericNormalizer: the three copies of parseNumber\<close>

text \<open>
  The excel-reader library and the per-month data route hold the same text:
  \<^verbatim>\<open>
  if (typeof value === 'number') return value;
  if (typeof value !== 'string') return 0;
  const cleaned = value.toString().trim().replace(/\+/g, '');
  if (cleaned.includes('w')) {
    const numPart = cleaned.replace('w', '').replace('+', '');
    const num = parseFloat(numPart);
    return isNaN(num) ? 0 : num * 10000;
  }
  const num = parseFloat(cleaned);
  return isNaN(num) ? 0 : num;
  \<close>
\<close>

definition parseNumber_lib :: "jsval \<Rightarrow> jsnum" where
  "parseNumber_lib v =
    (case v of
       JNum x \<Rightarrow> x
     | JStr s \<Rightarrow>
        (let cleaned = remove_all {chr_plus} (trim s)
         in if js_includes cleaned chr_w then
              (let numPart = remove_first chr_plus (remove_first chr_w cleaned);
                   num = parseFloat numPart
               in if isNaN num then Fin 0 else js_mul num (Fin 10000))
            else
              (let num = parseFloat cleaned
               in if isNaN num then Fin 0 else num))
     | _ \<Rightarrow> Fin 0)"

definition parseNumber_data :: "jsval \<Rightarrow> jsnum" where
  "parseNumber_data v =
    (case v of
       JNum x \<Rightarrow> x
     | JStr s \<Rightarrow>
        (let cleaned = remove_all {chr_plus} (trim s)
         in if js_includes cleaned chr_w then
              (let numPart = remove_first chr_plus (remove_first chr_w cleaned);
                   num = parseFloat numPart
               in if isNaN num then Fin 0 else js_mul num (Fin 10000))
            else
              (let num = parseFloat cleaned
               in if isNaN num then Fin 0 else num))
     | _ \<Rightarrow> Fin 0)"

text \<open>
  The yearly-statistics route tests the lowered text and strips the marker in both
  cases, everywhere:
  \<^verbatim>\<open>
  if (cleaned.toLowerCase().includes('w')) {
    const numPart = cleaned.replace(/[wW]/g, '').replace('+', '');
  \<close>
\<close>

definition parseNumber_yearly :: "jsval \<Rightarrow> jsnum" where
  "parseNumber_yearly v =
    (case v of
       JNum x \<Rightarrow> x
     | JStr s \<Rightarrow>
        (let cleaned = remove_all {chr_plus} (trim s)
         in if js_includes (toLowerCase cleaned) chr_w then
              (let numPart = remove_first chr_plus (remove_all {chr_w, chr_W} cleaned);
                   num = parseFloat numPart
               in if isNaN num then Fin 0 else js_mul num (Fin 10000))
            else
              (let num = parseFloat cleaned
               in if isNaN num then Fin 0 else num))
     | _ \<Rightarrow> Fin 0)"

section \<open>RecordBuilder\<close>

text \<open>
  The decoded first sheet, \<open>XLSX.utils.sheet_to_json(worksheet, {header: 1, defval: ''})\<close>:
  an array of rows, row 0 being the header, which the program reads as \<open>string[]\<close>.
  \<open>NoRows\<close> is the empty array.
\<close>

datatype sheet_json = NoRows | Rows "jsstring list" "jsval list list"

fun json_length :: "sheet_json \<Rightarrow> nat" where
  "json_length NoRows = 0"
| "json_length (Rows hs rs) = Suc (length rs)"

fun headers_of :: "sheet_json \<Rightarrow> jsstring list" where
  "headers_of NoRows = []"
| "headers_of (Rows hs rs) = hs"

fun dataRows_of :: "sheet_json \<Rightarrow> jsval list list" where
  "dataRows_of NoRows = []"
| "dataRows_of (Rows hs rs) = rs"

text \<open>\<open>row[index]\<close>: reading past the end of an array gives \<open>undefined\<close>.\<close>

definition cell :: "jsval list \<Rightarrow> nat \<Rightarrow> jsval" where
  "cell row i = (if i < length row then row ! i else JUndefined)"

text \<open>
  The two identity field names: U+516C U+4F17 U+53F7 (gongzhonghao, the public account's
  display name: the primary name) and U+5E10 U+53F7 U+540D (zhanghaoming, the account
  id: the alternate name).
\<close>

definition gzh :: jsstring where
  "gzh = [20844, 20247, 21495]"

definition zhm :: jsstring where
  "zhm = [24080, 21495, 21517]"

definition proto_name :: jsstring where
  "proto_name = ascii ''__proto__''"

text \<open>
  An account object. The interface \<open>AccountData\<close> declares the two identity
  properties as strings and every other property as a number; the record follows the
  declaration. A property that was never written reads \<open>undefined\<close>: \<open>None\<close>.
\<close>

record AccountData =
  gongzhonghao :: "jsstring option"
  zhanghaoming :: "jsstring option"
  numeric :: "jsstring \<rightharpoonup> jsnum"

definition empty_account :: AccountData where
  "empty_account = \<lparr>gongzhonghao = None, zhanghaoming = None, numeric = Map.empty\<rparr>"

datatype field = FStr jsstring | FNum jsnum

text \<open>The read \<open>account[name]\<close> of an own property.\<close>

definition get_prop :: "AccountData \<Rightarrow> jsstring \<Rightarrow> field option" where
  "get_prop a name =
    (if name = gzh then map_option FStr (gongzhonghao a)
     else if name = zhm then map_option FStr (zhanghaoming a)
     else map_option FNum (numeric a name))"

text \<open>
  \<open>value?.toString()\<close> on a cell: \<open>None\<close> where the chain stops at \<open>undefined\<close> or
  \<open>null\<close>. The digits that \<open>Number.prototype.toString\<close> prints are a parameter,
  \<open>nts\<close>, of everything that converts a cell to text.
\<close>

definition cell_toString :: "(jsnum \<Rightarrow> jsstring) \<Rightarrow> jsval \<Rightarrow> jsstring option" where
  "cell_toString nts v =
    (case v of
       JUndefined \<Rightarrow> None
     | JNull \<Rightarrow> None
     | JBool b \<Rightarrow> Some (if b then ascii ''true'' else ascii ''false'')
     | JNum x \<Rightarrow> Some (nts x)
     | JStr s \<Rightarrow> Some s)"

text \<open>\<open>x || ''\<close> on a string or \<open>undefined\<close>.\<close>

definition or_empty :: "jsstring option \<Rightarrow> jsstring" where
  "or_empty x = (case x of None \<Rightarrow> [] | Some s \<Rightarrow> if s \<noteq> [] then s else [])"

text \<open>
  One step of \<open>headers.forEach((header, index) => ...)\<close>:
  \<^verbatim>\<open>
  const value = row[index];
  if (header === gzh || header === zhm) account[header] = value?.toString() || '';
  else account[header] = parseNumber(value);
  \<close>
  An assignment to the key \<open>__proto__\<close> of an object literal runs the accessor of
  \<open>Object.prototype\<close>, which ignores a number: no property is written.
\<close>

definition set_field ::
  "(jsval \<Rightarrow> jsnum) \<Rightarrow> (jsnum \<Rightarrow> jsstring) \<Rightarrow> jsval list \<Rightarrow> AccountData \<Rightarrow> jsstring \<times> nat \<Rightarrow> AccountData"
  where
  "set_field pn nts row account hi =
    (let header = fst hi; v = cell row (snd hi)
     in if header = gzh then account\<lparr>gongzhonghao := Some (or_empty (cell_toString nts v))\<rparr>
        else if header = zhm then account\<lparr>zhanghaoming := Some (or_empty (cell_toString nts v))\<rparr>
        else if header = proto_name then account
        else account\<lparr>numeric := (numeric account)(header \<mapsto> pn v)\<rparr>)"

definition build_account ::
  "(jsval \<Rightarrow> jsnum) \<Rightarrow> (jsnum \<Rightarrow> jsstring) \<Rightarrow> jsstring list \<Rightarrow> jsval list \<Rightarrow> AccountData"
  where
  "build_account pn nts headers row =
    foldl (set_field pn nts row) empty_account (zip headers [0 ..< length headers])"

text \<open>
  The filter \<open>row => row && (row[0] || row[1])\<close>; a row is an array, which is truthy.
\<close>

definition keep_row :: "jsval list \<Rightarrow> bool" where
  "keep_row row = (truthy (cell row 0) \<or> truthy (cell row 1))"

definition accounts_of ::
  "(jsval \<Rightarrow> jsnum) \<Rightarrow> (jsnum \<Rightarrow> jsstring) \<Rightarrow> jsstring list \<Rightarrow> jsval list list \<Rightarrow> AccountData list"
  where
  "accounts_of pn nts headers dataRows = map (build_account pn nts headers) (filter keep_row dataRows)"

datatype ingest_error = BadFormat | MissingHeader

text \<open>
  \<open>readExcelFile\<close> of the library from the decoded sheet on: fewer than two rows
  reject the promise, otherwise it resolves to the accounts.
\<close>

definition readExcelFile :: "(jsnum \<Rightarrow> jsstring) \<Rightarrow> sheet_json \<Rightarrow> ingest_error + AccountData list" where
  "readExcelFile nts jsonData =
    (if json_length jsonData < 2 then Inl BadFormat
     else Inr (accounts_of parseNumber_lib nts (headers_of jsonData) (dataRows_of jsonData)))"

text \<open>
  The per-month data route from the decoded sheet on; it answers 400 as well when the
  header row is empty.
\<close>

definition GET_data :: "(jsnum \<Rightarrow> jsstring) \<Rightarrow> sheet_json \<Rightarrow> ingest_error + AccountData list" where
  "GET_data nts jsonData =
    (if json_length jsonData < 2 then Inl BadFormat
     else if length (headers_of jsonData) = 0 then Inl MissingHeader
     else Inr (accounts_of parseNumber_data nts (headers_of jsonData) (dataRows_of jsonData)))"

text \<open>\<open>findIndex\<close>: the first position that satisfies the test, \<open>None\<close> for \<open>-1\<close>.\<close>

fun findIndex :: "('a \<Rightarrow> bool) \<Rightarrow> 'a list \<Rightarrow> nat option" where
  "findIndex P [] = None"
| "findIndex P (x # xs) = (if P x then Some 0 else map_option Suc (findIndex P xs))"

text \<open>\<open>row[idx]\<close> where \<open>idx\<close> may be \<open>-1\<close>, which no array holds.\<close>

definition cell_at :: "jsval list \<Rightarrow> nat option \<Rightarrow> jsval" where
  "cell_at row idx = (case idx of None \<Rightarrow> JUndefined | Some i \<Rightarrow> cell row i)"

text \<open>
  For the statements about the builder: what one header stores from one cell, and the
  cell of a row under the first header of a given name.
\<close>

definition field_of_cell :: "(jsval \<Rightarrow> jsnum) \<Rightarrow> (jsnum \<Rightarrow> jsstring) \<Rightarrow> jsstring \<Rightarrow> jsval \<Rightarrow> field" where
  "field_of_cell pn nts header v =
    (if header = gzh \<or> header = zhm then FStr (or_empty (cell_toString nts v)) else FNum (pn v))"

definition name_cell :: "jsstring list \<Rightarrow> jsstring \<Rightarrow> jsval list \<Rightarrow> jsval" where
  "name_cell headers name row = cell_at row (findIndex (\<lambda>h. h = name) headers)"

text \<open>
  A printer for the closed examples: \<open>Number.prototype.toString\<close> on \<open>NaN\<close>, the
  infinities and the integers (below \<open>10^21\<close> in magnitude, where JavaScript prints all
  the digits). Of a number with a fraction it prints the integer part only, which is
  not what JavaScript prints; the examples hold no number in a name cell, and the
  general statements are about every printer.
\<close>

fun nat_digits :: "nat \<Rightarrow> jsstring" where
  "nat_digits n = (if n < 10 then [48 + n] else nat_digits (n div 10) @ [48 + n mod 10])"

declare nat_digits.simps [simp del]

definition integer_toString :: "jsnum \<Rightarrow> jsstring" where
  "integer_toString x =
    (case x of
       NaN \<Rightarrow> ascii ''NaN''
     | PInf \<Rightarrow> ascii ''Infinity''
     | NInf \<Rightarrow> ascii ''-Infinity''
     | Fin q \<Rightarrow> if q < 0 then chr_minus # nat_digits (nat \<lfloor>- q\<rfloor>) else nat_digits (nat \<lfloor>q\<rfloor>))"

section \<open>EntityKeyResolver\<close>

text \<open>\<open>x || y\<close> on strings that may be \<open>undefined\<close>.\<close>

definition or_else :: "jsstring option \<Rightarrow> jsstring option \<Rightarrow> jsstring option" where
  "or_else x y = (case x of None \<Rightarrow> y | Some s \<Rightarrow> if s \<noteq> [] then Some s else y)"

text \<open>\<^verbatim>\<open>return account.zhanghaoming || account.gongzhonghao || '';\<close>\<close>

definition getAccountKey :: "AccountData \<Rightarrow> jsstring" where
  "getAccountKey account = or_empty (or_else (zhanghaoming account) (gongzhonghao account))"

section \<open>SafeFieldAccessor\<close>

text \<open>
  A getter is a thunk that returns a value or throws one (\<open>Inl\<close>). The result of
  \<open>safeGetValue\<close> is the value itself or the object \<open>{error: fieldName + suffix}\<close>, the
  suffix being U+6570 U+636E U+9519 U+8BEF ("data error").
\<close>

datatype safe_result = Value jsval | ErrorObj jsstring

definition data_error :: jsstring where
  "data_error = [25968, 25454, 38169, 35823]"

definition safeGetValue :: "(unit \<Rightarrow> jsval + jsval) \<Rightarrow> jsstring \<Rightarrow> safe_result" where
  "safeGetValue getter fieldName =
    (case getter () of
       Inl thrown \<Rightarrow> ErrorObj (fieldName @ data_error)
     | Inr v \<Rightarrow>
        (case v of
           JNum x \<Rightarrow> if isNaN x \<or> \<not> isFinite x then ErrorObj (fieldName @ data_error) else Value v
         | _ \<Rightarrow> Value v))"

section \<open>DeltaComputer and the display bundle\<close>

definition k_reads :: jsstring where "k_reads = [38405, 35835, 24635, 25968]"
definition k_headline :: jsstring where "k_headline = [22836, 26465, 25991, 31456, 38405, 35835, 37327]"
definition k_forward :: jsstring where "k_forward = [36716, 21457, 24635, 37327]"

text \<open>The labels handed to \<open>safeGetValue\<close>, in the order of the bundle.\<close>

definition l_name :: jsstring where "l_name = [36134, 21495, 21517, 31216]"
definition l_reads :: jsstring where "l_reads = [24635, 38405, 35835, 25968]"










section \<open>YearlyAggregator\<close>

text \<open>
  The tracked accounts, \<open>TARGET_ACCOUNTS\<close>: U+65B0 U+667A U+5143, U+673A U+5668 U+4E4B
  U+5FC3 and U+91CF U+5B50 U+4F4D.
\<close>

definition TARGET_ACCOUNTS :: "jsstring list" where
  "TARGET_ACCOUNTS = [[26032, 26234, 20803], [26426, 22120, 20043, 24515], [37327, 23376, 20301]]"

record MonthlyData =
  md_month :: jsstring
  md_reads :: jsnum
  md_headline :: jsnum
  md_forward :: jsnum

record Totals =
  t_reads :: jsnum
  t_headline :: jsnum
  t_forward :: jsnum

record AccountYearlyStats =
  accountName :: jsstring
  monthlyData :: "MonthlyData list"
  total :: Totals

type_synonym statsMap = "jsstring \<rightharpoonup> AccountYearlyStats"

definition init_stats :: "jsstring \<Rightarrow> AccountYearlyStats" where
  "init_stats name =
    \<lparr>accountName = name, monthlyData = [],
     total = \<lparr>t_reads = Fin 0, t_headline = Fin 0, t_forward = Fin 0\<rparr>\<rparr>"

definition init_statsMap :: statsMap where
  "init_statsMap = foldl (\<lambda>m name. m(name \<mapsto> init_stats name)) Map.empty TARGET_ACCOUNTS"

text \<open>\<open>idx >= 0 ? parseNumber(row[idx]) : 0\<close>\<close>

definition metric_at :: "jsval list \<Rightarrow> nat option \<Rightarrow> jsnum" where
  "metric_at row idx = (case idx of None \<Rightarrow> Fin 0 | Some i \<Rightarrow> parseNumber_yearly (cell row i))"

record column_indexes =
  accountNameIdx :: "nat option"
  readTotalIdx :: "nat option"
  headlineReadIdx :: "nat option"
  forwardTotalIdx :: "nat option"

definition find_columns :: "jsstring list \<Rightarrow> column_indexes" where
  "find_columns headers =
    \<lparr>accountNameIdx = findIndex (\<lambda>h. h = gzh \<or> h = zhm) headers,
     readTotalIdx = findIndex (\<lambda>h. h = k_reads) headers,
     headlineReadIdx = findIndex (\<lambda>h. h = k_headline) headers,
     forwardTotalIdx = findIndex (\<lambda>h. h = k_forward) headers\<rparr>"

definition monthData_of :: "jsstring \<Rightarrow> column_indexes \<Rightarrow> jsval list \<Rightarrow> MonthlyData" where
  "monthData_of month cols row =
    \<lparr>md_month = month,
     md_reads = metric_at row (readTotalIdx cols),
     md_headline = metric_at row (headlineReadIdx cols),
     md_forward = metric_at row (forwardTotalIdx cols)\<rparr>"

text \<open>
  \<open>stats.monthlyData.push(monthData)\<close> and the three \<open>stats.total.x += monthData.x\<close>.
\<close>

definition add_month :: "AccountYearlyStats \<Rightarrow> MonthlyData \<Rightarrow> AccountYearlyStats" where
  "add_month stats monthData =
    stats\<lparr>monthlyData := monthlyData stats @ [monthData],
          total := \<lparr>t_reads = js_add (t_reads (total stats)) (md_reads monthData),
                    t_headline = js_add (t_headline (total stats)) (md_headline monthData),
                    t_forward = js_add (t_forward (total stats)) (md_forward monthData)\<rparr>\<rparr>"

text \<open>
  The name a row is filed under: \<open>row[accountNameIdx]?.toString().trim()\<close> of a truthy
  cell; \<open>None\<close> when the row is passed over by \<open>if (!row || !row[accountNameIdx]) continue\<close>.
\<close>

definition row_account :: "(jsnum \<Rightarrow> jsstring) \<Rightarrow> column_indexes \<Rightarrow> jsval list \<Rightarrow> jsstring option" where
  "row_account nts cols row =
    (let v = cell_at row (accountNameIdx cols)
     in if \<not> truthy v then None else map_option trim (cell_toString nts v))"

text \<open>The body of \<open>for (const row of dataRows)\<close>.\<close>

definition process_row ::
  "(jsnum \<Rightarrow> jsstring) \<Rightarrow> jsstring \<Rightarrow> column_indexes \<Rightarrow> statsMap \<Rightarrow> jsval list \<Rightarrow> statsMap"
  where
  "process_row nts month cols m row =
    (case row_account nts cols row of
       None \<Rightarrow> m
     | Some name \<Rightarrow>
        if name \<in> set TARGET_ACCOUNTS then
          (case m name of
             None \<Rightarrow> m
           | Some stats \<Rightarrow> m(name \<mapsto> add_month stats (monthData_of month cols row)))
        else m)"

text \<open>
  What the route finds for one month: listing the folder throws (outside the inner
  \<open>try\<close>), the folder holds no workbook, reading or decoding the workbook throws, the
  workbook has no sheet, or the first sheet decodes to rows.
\<close>

datatype month_source = ListThrows | NoExcelFile | ReadThrows | NoSheets | FirstSheet sheet_json

datatype server_error = ServerError

text \<open>The body of \<open>for (const month of months)\<close>.\<close>

definition process_month ::
  "(jsnum \<Rightarrow> jsstring) \<Rightarrow> statsMap \<Rightarrow> jsstring \<times> month_source \<Rightarrow> server_error + statsMap"
  where
  "process_month nts m ms =
    (case snd ms of
       ListThrows \<Rightarrow> Inl ServerError
     | NoExcelFile \<Rightarrow> Inr m
     | ReadThrows \<Rightarrow> Inr m
     | NoSheets \<Rightarrow> Inr m
     | FirstSheet jsonData \<Rightarrow>
        if json_length jsonData < 2 then Inr m
        else Inr (foldl (process_row nts (fst ms) (find_columns (headers_of jsonData)))
                    m (dataRows_of jsonData)))"

fun process_months ::
  "(jsnum \<Rightarrow> jsstring) \<Rightarrow> statsMap \<Rightarrow> (jsstring \<times> month_source) list \<Rightarrow> server_error + statsMap"
  where
  "process_months nts m [] = Inr m"
| "process_months nts m (ms # rest) =
    (case process_month nts m ms of
       Inl e \<Rightarrow> Inl e
     | Inr m' \<Rightarrow> process_months nts m' rest)"

record yearly_report =
  report_data :: "AccountYearlyStats option list"
  report_months :: "jsstring list"

text \<open>
  The route from the sorted month list on. The answer lists
  \<open>TARGET_ACCOUNTS.map(name => statsMap.get(name)!)\<close> (\<open>None\<close> for \<open>undefined\<close>) and
  the months.
\<close>

definition GET_yearly ::
  "(jsnum \<Rightarrow> jsstring) \<Rightarrow> (jsstring \<times> month_source) list \<Rightarrow> server_error + yearly_report"
  where
  "GET_yearly nts months =
    (case process_months nts init_statsMap months of
       Inl e \<Rightarrow> Inl e
     | Inr m \<Rightarrow> Inr \<lparr>report_data = map m TARGET_ACCOUNTS, report_months = map fst months\<rparr>)"

text \<open>The sum of a series, added up from 0 in series order.\<close>

definition js_sum :: "jsnum list \<Rightarrow> jsnum" where
  "js_sum xs = foldl js_add (Fin 0) xs"

text \<open>
  For the statements about the aggregator. \<open>month_rows\<close> lists what one month holds
  for one account: an entry for each data row filed under that name, none when the
  month is passed over. \<open>series_of\<close> chains the months, and \<open>stats_of\<close> is the
  statistics object whose totals are the sums of its series.
\<close>

definition month_rows :: "(jsnum \<Rightarrow> jsstring) \<Rightarrow> jsstring \<Rightarrow> jsstring \<times> month_source \<Rightarrow> MonthlyData list" where
  "month_rows nts name ms =
    (case snd ms of
       FirstSheet jsonData \<Rightarrow>
         if json_length jsonData < 2 then []
         else map (monthData_of (fst ms) (find_columns (headers_of jsonData)))
                (filter (\<lambda>row. row_account nts (find_columns (headers_of jsonData)) row = Some name)
                   (dataRows_of jsonData))
     | _ \<Rightarrow> [])"

definition series_of ::
  "(jsnum \<Rightarrow> jsstring) \<Rightarrow> jsstring \<Rightarrow> (jsstring \<times> month_source) list \<Rightarrow> MonthlyData list" where
  "series_of nts name months = concat (map (month_rows nts name) months)"

definition stats_of :: "jsstring \<Rightarrow> MonthlyData list \<Rightarrow> AccountYearlyStats" where
  "stats_of name xs =
    \<lparr>accountName = name, monthlyData = xs,
     total = \<lparr>t_reads = js_sum (map md_reads xs),
              t_headline = js_sum (map md_headline xs),
              t_forward = js_sum (map md_forward xs)\<rparr>\<rparr>"

definition stats_map_of :: "(jsstring \<Rightarrow> MonthlyData list) \<Rightarrow> statsMap" where
  "stats_map_of f =
    (\<lambda>name. if name \<in> set TARGET_ACCOUNTS then Some (stats_of name (f name)) else None)"

text \<open>
  A month whose workbook cannot be used: reading or decoding throws, it has no sheet,
  or its first sheet has fewer than two rows.
\<close>

definition read_failure :: "month_source \<Rightarrow> bool" where
  "read_failure src =
    (case src of
       ReadThrows \<Rightarrow> True
     | NoSheets \<Rightarrow> True
     | FirstSheet jsonData \<Rightarrow> json_length jsonData < 2
     | _ \<Rightarrow> False)"

text \<open>
  Three months for the closed examples: the first tracked account with a myriad
  marker, a month whose workbook cannot be read, and a month with a padded name, a
  plus sign and no column for two of the metrics.
\<close>

definition example_months :: "(jsstring \<times> month_source) list" where
  "example_months =
    [(ascii ''202401'',
      FirstSheet (Rows [gzh, zhm, k_reads, k_headline, k_forward]
        [[JStr (TARGET_ACCOUNTS ! 0), JStr (ascii ''xzy''), JStr (ascii ''1.2w''),
          JStr (ascii ''100''), JNum (Fin 5)],
         [JStr (ascii ''other''), JStr [], JStr (ascii ''7''), JStr (ascii ''7''), JStr (ascii ''7'')]])),
     (ascii ''202402'', ReadThrows),
     (ascii ''202403'',
      FirstSheet (Rows [gzh, k_reads]
        [[JStr (ascii '' '' @ TARGET_ACCOUNTS ! 0), JStr (ascii ''300+'')]]))]"

section \<open>Evaluation and helper lemmas\<close>

lemma binade_numeral:
  "binade (numeral k) q =
    (if 2 \<le> q then binade (pred_numeral k) (q / 2) + 1
     else if q < 1 then binade (pred_numeral k) (q * 2) - 1
     else 0)"
  by (simp add: numeral_eq_Suc)

lemma floor_numeral_div: "\<lfloor>numeral a / numeral b :: rat\<rfloor> = numeral a div numeral b"
  using floor_divide_of_int_eq [of "numeral a" "numeral b", where ?'a = rat] by simp

lemmas round_eval =
  round_double_def round_magnitude_def round_half_even_def pow2_def binade_numeral
  floor_numeral_div Let_def

lemmas js_eval =
  ascii_def trim_def trim_start_def is_space_def remove_all_def js_includes_def toLowerCase_def
  is_digit_def digits_value_def scale10_def exponent_part_def unsigned_literal_def parseFloat_def
  isNaN_def inf_of_sign_def round_eval

text \<open>Rounding gives a double or an infinity, never \<open>NaN\<close>.\<close>

lemma round_magnitude_not_NaN: "round_magnitude q \<noteq> NaN"
  by (simp add: round_magnitude_def Let_def)

lemma round_double_not_NaN: "round_double q \<noteq> NaN"
proof -
  have "js_neg y \<noteq> NaN" if "y \<noteq> NaN" for y
    using that by (cases y) simp_all
  then show ?thesis
    by (simp add: round_double_def round_magnitude_not_NaN)
qed

text \<open>
  The rounding at work: the sum of the doubles read from \<open>0.1\<close> and \<open>0.2\<close> is the
  double that prints as \<open>0.30000000000000004\<close>, not the double read from \<open>0.3\<close>;
  \<open>0.07 * 10000\<close> is the double above 700; a literal beyond the range is an
  infinity, and so are a product and a difference of doubles beyond it.
\<close>

lemma rounding_examples:
  "js_add (parseFloat (ascii ''0.1'')) (parseFloat (ascii ''0.2''))
     = Fin (1351079888211149 / 4503599627370496)"
  "parseFloat (ascii ''0.3'') = Fin (5404319552844595 / 18014398509481984)"
  "js_mul (parseFloat (ascii ''0.07'')) (Fin 10000) = Fin (6157265115545601 / 8796093022208)"
  "parseFloat (ascii ''1e400'') = PInf"
  "js_mul (Fin (2 ^ 1023)) (Fin 10000) = PInf"
  "js_sub (Fin (2 ^ 1023)) (Fin (- (2 ^ 1023))) = PInf"
  by (simp_all add: js_eval js_sub_def)

lemma js_mul_not_NaN: "x \<noteq> NaN \<Longrightarrow> js_mul x (Fin 10000) \<noteq> NaN"
  by (cases x) (simp_all add: inf_of_sign_def round_double_not_NaN)

lemma parseNumber_lib_string: "parseNumber_lib (JStr s) \<noteq> NaN"
  by (simp add: parseNumber_lib_def Let_def isNaN_def js_mul_not_NaN)

lemma parseNumber_data_string: "parseNumber_data (JStr s) \<noteq> NaN"
  by (simp add: parseNumber_data_def Let_def isNaN_def js_mul_not_NaN)

lemma parseNumber_yearly_string: "parseNumber_yearly (JStr s) \<noteq> NaN"
  by (simp add: parseNumber_yearly_def Let_def isNaN_def js_mul_not_NaN)

text \<open>The library's copy and the data route's copy are the same function.\<close>

lemma parseNumber_lib_eq_data: "parseNumber_lib v = parseNumber_data v"
  by (simp add: parseNumber_lib_def parseNumber_data_def)

lemma lower_includes_w: "js_includes (toLowerCase t) chr_w \<longleftrightarrow> chr_w \<in> set t \<or> chr_W \<in> set t"
  by (auto simp: js_includes_def toLowerCase_def split: if_splits)

lemma remove_first_absent: "c \<notin> set t \<Longrightarrow> remove_first c t = t"
  by (induction t) auto

text \<open>
  The yearly route's copy does treat the marker in either case: the marker and the
  plus signs go, the rest is parsed and multiplied by 10000, and an unparseable rest
  gives 0.
\<close>

lemma parseNumber_yearly_myriad:
  assumes "cleaned = remove_all {chr_plus} (trim s)"
    and "chr_w \<in> set cleaned \<or> chr_W \<in> set cleaned"
  shows "parseNumber_yearly (JStr s) =
    (let num = parseFloat (remove_all {chr_w, chr_W} cleaned)
     in if isNaN num then Fin 0 else js_mul num (Fin 10000))"
proof -
  have "chr_plus \<notin> set (remove_all {chr_w, chr_W} cleaned)"
    using assms(1) by (simp add: remove_all_def)
  then have "remove_first chr_plus (remove_all {chr_w, chr_W} cleaned)
      = remove_all {chr_w, chr_W} cleaned"
    by (rule remove_first_absent)
  then show ?thesis
    using assms by (simp add: parseNumber_yearly_def lower_includes_w Let_def)
qed

section \<open>NumericNormalizer: results\<close>

text \<open>
  Claim C1, as the code has it. Every copy of \<open>parseNumber\<close> is a total function (no
  primitive it calls can throw). A number comes back unchanged, \<open>NaN\<close> and the
  infinities included; a value that is neither a number nor a string gives 0; a string
  gives a number that is never \<open>NaN\<close>. That number is not always finite: the text
  \<open>Infinity\<close> gives the infinity.
\<close>

theorem parseNumber_never_NaN:
  "parseNumber_lib (JNum x) = x \<and> parseNumber_data (JNum x) = x \<and> parseNumber_yearly (JNum x) = x
   \<and> \<not> isNaN (parseNumber_lib (JStr s)) \<and> \<not> isNaN (parseNumber_data (JStr s))
   \<and> \<not> isNaN (parseNumber_yearly (JStr s))
   \<and> parseNumber_lib JUndefined = Fin 0 \<and> parseNumber_lib JNull = Fin 0
   \<and> parseNumber_lib (JBool b) = Fin 0
   \<and> parseNumber_data JUndefined = Fin 0 \<and> parseNumber_data JNull = Fin 0
   \<and> parseNumber_data (JBool b) = Fin 0
   \<and> parseNumber_yearly JUndefined = Fin 0 \<and> parseNumber_yearly JNull = Fin 0
   \<and> parseNumber_yearly (JBool b) = Fin 0
   \<and> parseNumber_lib (JStr (ascii ''Infinity'')) = PInf
   \<and> parseNumber_data (JStr (ascii ''Infinity'')) = PInf
   \<and> parseNumber_yearly (JStr (ascii ''Infinity'')) = PInf"
proof -
  have "parseNumber_lib (JStr (ascii ''Infinity'')) = PInf"
    "parseNumber_data (JStr (ascii ''Infinity'')) = PInf"
    "parseNumber_yearly (JStr (ascii ''Infinity'')) = PInf"
    by (simp_all add: parseNumber_lib_def parseNumber_data_def parseNumber_yearly_def js_eval)
  then show ?thesis
    using parseNumber_lib_string [of s] parseNumber_data_string [of s]
      parseNumber_yearly_string [of s]
    by (simp add: isNaN_def parseNumber_lib_def parseNumber_data_def parseNumber_yearly_def)
qed

theorem parseNumber_never_NaN_witness:
  "parseNumber_lib (JNum NaN) = NaN \<and> parseNumber_data (JNum PInf) = PInf
   \<and> parseNumber_lib (JStr (ascii ''1.5w'')) = Fin 15000
   \<and> \<not> isNaN (parseNumber_lib (JStr (ascii ''1.5w'')))
   \<and> parseNumber_data (JStr (ascii ''abc'')) = Fin 0
   \<and> parseNumber_yearly (JBool True) = Fin 0"
  using parseNumber_never_NaN [of NaN "ascii ''1.5w''" True]
    parseNumber_never_NaN [of PInf "ascii ''abc''" True]
  by (simp add: parseNumber_lib_def parseNumber_data_def js_eval)

text \<open>
  Claim C1 as stated fails: the text \<open>Infinity\<close> is a string and \<open>parseFloat\<close> reads it
  as the infinity, which \<open>isNaN\<close> lets through.
\<close>

theorem parseNumber_Infinity_counterexample:
  "\<not> isFinite (parseNumber_lib (JStr (ascii ''Infinity'')))
   \<and> \<not> isFinite (parseNumber_data (JStr (ascii ''Infinity'')))"
  by (simp add: parseNumber_lib_def parseNumber_data_def js_eval)

text \<open>
  Claim C6 at the text \<open>1.5W\<close>. The library's copy and the data route's copy look for
  the lower-case marker only, so the upper-case marker is left in the text and
  \<open>parseFloat\<close> stops in front of it: the result is 1.5 where the claim gives 15000.
\<close>

theorem parseNumber_uppercase_marker:
  "parseNumber_lib (JStr (ascii ''1.5W'')) = Fin (3 / 2)
   \<and> parseNumber_data (JStr (ascii ''1.5W'')) = Fin (3 / 2)"
  by (simp add: parseNumber_lib_def parseNumber_data_def js_eval)

text \<open>
  Claim C7 at the text \<open>2W\<close>: the three copies do not agree. The yearly route's copy
  reads the upper-case marker, the two others do not.
\<close>

theorem parseNumber_copies_differ:
  "parseNumber_lib (JStr (ascii ''2W'')) = Fin 2
   \<and> parseNumber_data (JStr (ascii ''2W'')) = Fin 2
   \<and> parseNumber_yearly (JStr (ascii ''2W'')) = Fin 20000"
  by (simp add: parseNumber_lib_def parseNumber_data_def parseNumber_yearly_def js_eval)

section \<open>RecordBuilder: results\<close>

lemmas build_eval =
  build_account_def set_field_def get_prop_def cell_def cell_toString_def or_empty_def
  empty_account_def gzh_def zhm_def proto_name_def

lemma names_distinct: "gzh \<noteq> zhm" "gzh \<noteq> proto_name" "zhm \<noteq> proto_name"
  by (simp_all add: gzh_def zhm_def proto_name_def ascii_def)

lemma keep_row_identity_cells:
  assumes "take 2 headers = [gzh, zhm] \<or> take 2 headers = [zhm, gzh]"
  shows "keep_row row \<longleftrightarrow> truthy (name_cell headers gzh row) \<or> truthy (name_cell headers zhm row)"
proof -
  obtain a b rest where hs: "headers = a # b # rest"
    and ab: "(a = gzh \<and> b = zhm) \<or> (a = zhm \<and> b = gzh)"
    using assms by (cases headers; cases "tl headers") auto
  show ?thesis
    using ab names_distinct(1) by (auto simp: hs keep_row_def name_cell_def cell_at_def)
qed

text \<open>
  Claim C3 at a sheet whose identity columns are not the first two. The filter reads
  \<open>row[0] || row[1]\<close>, whatever the header says, while its comment says that it
  checks the two name fields. Here the alternate-name cell holds \<open>acc\<close> and the first
  two cells are empty: the library and the data route drop the row. The builder right
  below the filter finds the same cell by its header, and so does the yearly route.
\<close>

theorem row_filter_ignores_header:
  "readExcelFile integer_toString
      (Rows [k_reads, gzh, zhm] [[JStr [], JStr [], JStr (ascii ''acc'')]]) = Inr []
   \<and> GET_data integer_toString
      (Rows [k_reads, gzh, zhm] [[JStr [], JStr [], JStr (ascii ''acc'')]]) = Inr []
   \<and> name_cell [k_reads, gzh, zhm] zhm [JStr [], JStr [], JStr (ascii ''acc'')]
      = JStr (ascii ''acc'')
   \<and> zhanghaoming (build_account parseNumber_lib integer_toString [k_reads, gzh, zhm]
        [JStr [], JStr [], JStr (ascii ''acc'')]) = Some (ascii ''acc'')
   \<and> row_account integer_toString (find_columns [k_reads, zhm])
        [JStr [], JStr (ascii ''acc'')] = Some (ascii ''acc'')"
  by (simp add: readExcelFile_def GET_data_def accounts_of_def keep_row_def
      name_cell_def cell_at_def find_columns_def row_account_def build_eval k_reads_def
      upt_rec js_eval)

text \<open>
  On the layout of the reports, where the two identity columns come first (in either
  order), the filter keeps exactly the rows with a truthy identity cell, and every
  kept row gives an account whatever its numeric cells hold.
\<close>

lemma rows_kept_on_report_layout:
  assumes "take 2 headers = [gzh, zhm] \<or> take 2 headers = [zhm, gzh]"
    and "dataRows \<noteq> []"
  shows "readExcelFile nts (Rows headers dataRows)
      = Inr (map (build_account parseNumber_lib nts headers)
          (filter (\<lambda>row. truthy (name_cell headers gzh row) \<or> truthy (name_cell headers zhm row))
             dataRows))
    \<and> GET_data nts (Rows headers dataRows)
      = Inr (map (build_account parseNumber_data nts headers)
          (filter (\<lambda>row. truthy (name_cell headers gzh row) \<or> truthy (name_cell headers zhm row))
             dataRows))"
proof -
  have "filter keep_row dataRows
      = filter (\<lambda>row. truthy (name_cell headers gzh row) \<or> truthy (name_cell headers zhm row)) dataRows"
    using keep_row_identity_cells [OF assms(1)] by (intro filter_cong) simp_all
  moreover have "headers \<noteq> []" "dataRows \<noteq> []"
    using assms by auto
  ultimately show ?thesis
    by (simp add: readExcelFile_def GET_data_def accounts_of_def)
qed

text \<open>
  The sheet of the specification's end-to-end example with one more row: the empty
  row is dropped, and the row whose numeric cell is not a number is kept with 0.
\<close>

lemma end_to_end_example:
  "map (\<lambda>account. (gongzhonghao account, zhanghaoming account, numeric account k_reads))
     (projr (readExcelFile integer_toString
        (Rows [gzh, zhm, k_reads]
          [[JStr (ascii ''A''), JStr [], JStr (ascii ''1.2w'')],
           [JStr [], JStr [], JStr []],
           [JStr (ascii ''B''), JStr (ascii ''b2''), JStr (ascii ''300+'')],
           [JStr [], JStr (ascii ''c3''), JStr (ascii ''abc'')]])))
   = [(Some (ascii ''A''), Some [], Some (Fin 12000)),
      (Some (ascii ''B''), Some (ascii ''b2''), Some (Fin 300)),
      (Some [], Some (ascii ''c3''), Some (Fin 0))]"
proof -
  have "take 2 [gzh, zhm, k_reads] = [gzh, zhm] \<or> take 2 [gzh, zhm, k_reads] = [zhm, gzh]"
    by simp
  from rows_kept_on_report_layout [OF this, of _ integer_toString] show ?thesis
    by (simp add: name_cell_def cell_at_def build_eval k_reads_def upt_rec
        parseNumber_lib_def js_eval)
qed

lemma set_field_other:
  "fst hi \<noteq> name \<Longrightarrow> get_prop (set_field pn nts row account hi) name = get_prop account name"
  by (auto simp: set_field_def get_prop_def Let_def)

lemma set_field_same:
  "fst hi = name \<Longrightarrow> name \<noteq> proto_name \<Longrightarrow>
   get_prop (set_field pn nts row account hi) name
     = Some (field_of_cell pn nts name (cell row (snd hi)))"
  using names_distinct by (auto simp: set_field_def get_prop_def field_of_cell_def Let_def)

lemma foldl_set_field_other:
  "\<forall>hi \<in> set his. fst hi \<noteq> name \<Longrightarrow>
   get_prop (foldl (set_field pn nts row) account his) name = get_prop account name"
  by (induction his arbitrary: account) (simp_all add: set_field_other)

lemma zip_upt_split:
  assumes "i < length headers"
  shows "zip headers [0 ..< length headers] =
    zip (take i headers) [0 ..< i]
      @ (headers ! i, i) # map (\<lambda>j. (headers ! j, j)) [Suc i ..< length headers]"
proof -
  have whole: "zip headers [0 ..< length headers]
      = map (\<lambda>j. (headers ! j, j)) [0 ..< length headers]"
    by (rule nth_equalityI) simp_all
  have upt: "[0 ..< length headers] = [0 ..< i] @ i # [Suc i ..< length headers]"
    using assms
    by (metis less_imp_le_nat upt_add_eq_append upt_conv_Cons le_add_diff_inverse zero_le)
  have front: "map (\<lambda>j. (headers ! j, j)) [0 ..< i] = zip (take i headers) [0 ..< i]"
    using assms by (intro nth_equalityI) simp_all
  have "map (\<lambda>j. (headers ! j, j)) ([0 ..< i] @ i # [Suc i ..< length headers])
      = zip (take i headers) [0 ..< i]
          @ (headers ! i, i) # map (\<lambda>j. (headers ! j, j)) [Suc i ..< length headers]"
    by (simp add: front)
  with whole upt show ?thesis by metis
qed

text \<open>
  What the builder does with a repeated header: each step of \<open>forEach\<close> assigns
  \<open>account[header]\<close>, so a later column of the same name overwrites an earlier one,
  and the account holds what the last occurrence's cell gives.
\<close>

lemma build_account_last_occurrence:
  assumes "i < length headers"
    and "\<forall>j. i < j \<and> j < length headers \<longrightarrow> headers ! j \<noteq> headers ! i"
    and "headers ! i \<noteq> proto_name"
  shows "get_prop (build_account pn nts headers row) (headers ! i)
    = Some (field_of_cell pn nts (headers ! i) (cell row i))"
proof -
  let ?pre = "foldl (set_field pn nts row) empty_account (zip (take i headers) [0 ..< i])"
  let ?post = "map (\<lambda>j. (headers ! j, j)) [Suc i ..< length headers]"
  have later: "\<forall>hi \<in> set ?post. fst hi \<noteq> headers ! i"
    using assms(2) by auto
  have "build_account pn nts headers row
      = foldl (set_field pn nts row) (set_field pn nts row ?pre (headers ! i, i)) ?post"
    by (simp add: build_account_def zip_upt_split [OF assms(1)])
  then have "get_prop (build_account pn nts headers row) (headers ! i)
      = get_prop (set_field pn nts row ?pre (headers ! i, i)) (headers ! i)"
    using foldl_set_field_other [OF later] by simp
  also have "\<dots> = Some (field_of_cell pn nts (headers ! i) (cell row i))"
    using set_field_same [of "(headers ! i, i)" "headers ! i"] assms(3) by simp
  finally show ?thesis .
qed

text \<open>
  Claim C8 at a sheet with the reads column twice, holding 1 and then 2. The first
  occurrence is column 1 and its cell gives 1, which is what the claim stores and
  what the yearly route reads from this very row (it finds its columns with
  \<open>findIndex\<close>). The account built by the library and by the data route holds 2.
\<close>

theorem duplicate_header_last_cell_stored:
  "findIndex (\<lambda>h. h = k_reads) [gzh, k_reads, k_reads] = Some 1
   \<and> field_of_cell parseNumber_lib integer_toString k_reads
        (cell [JStr (ascii ''A''), JStr (ascii ''1''), JStr (ascii ''2'')] 1) = FNum (Fin 1)
   \<and> metric_at [JStr (ascii ''A''), JStr (ascii ''1''), JStr (ascii ''2'')]
        (readTotalIdx (find_columns [gzh, k_reads, k_reads])) = Fin 1
   \<and> get_prop (build_account parseNumber_lib integer_toString [gzh, k_reads, k_reads]
        [JStr (ascii ''A''), JStr (ascii ''1''), JStr (ascii ''2'')]) k_reads
      = Some (FNum (Fin 2))
   \<and> get_prop (build_account parseNumber_data integer_toString [gzh, k_reads, k_reads]
        [JStr (ascii ''A''), JStr (ascii ''1''), JStr (ascii ''2'')]) k_reads
      = Some (FNum (Fin 2))"
  by (simp add: build_eval field_of_cell_def metric_at_def find_columns_def k_reads_def upt_rec
      parseNumber_lib_def parseNumber_data_def parseNumber_yearly_def js_eval)

section \<open>EntityKeyResolver, SafeFieldAccessor and DeltaComputer: results\<close>

text \<open>
  Claim C10. \<open>getAccountKey\<close> is a function from accounts to strings: it has a string
  for every account. It returns the alternate name when that is a non-empty string,
  else the primary name when that is a non-empty string, else the empty string.
\<close>

theorem getAccountKey_prefers_alternate:
  "(zhanghaoming a = Some alt \<and> alt \<noteq> [] \<longrightarrow> getAccountKey a = alt)
   \<and> (or_empty (zhanghaoming a) = [] \<and> gongzhonghao a = Some prim \<and> prim \<noteq> []
        \<longrightarrow> getAccountKey a = prim)
   \<and> (or_empty (zhanghaoming a) = [] \<and> or_empty (gongzhonghao a) = [] \<longrightarrow> getAccountKey a = [])"
  by (auto simp: getAccountKey_def or_empty_def or_else_def split: option.splits if_splits)

theorem getAccountKey_prefers_alternate_witness:
  "getAccountKey \<lparr>gongzhonghao = Some (ascii ''B''), zhanghaoming = Some (ascii ''b2''), numeric = Map.empty\<rparr>
     = ascii ''b2''
   \<and> getAccountKey \<lparr>gongzhonghao = Some (ascii ''A''), zhanghaoming = Some [], numeric = Map.empty\<rparr>
     = ascii ''A''
   \<and> getAccountKey \<lparr>gongzhonghao = Some (ascii ''A''), zhanghaoming = None, numeric = Map.empty\<rparr>
     = ascii ''A''
   \<and> getAccountKey empty_account = []"
  using getAccountKey_prefers_alternate
      [of "\<lparr>gongzhonghao = Some (ascii ''B''), zhanghaoming = Some (ascii ''b2''), numeric = Map.empty\<rparr>"
          "ascii ''b2''" "ascii ''B''"]
    getAccountKey_prefers_alternate
      [of "\<lparr>gongzhonghao = Some (ascii ''A''), zhanghaoming = Some [], numeric = Map.empty\<rparr>"
          "[]" "ascii ''A''"]
    getAccountKey_prefers_alternate
      [of "\<lparr>gongzhonghao = Some (ascii ''A''), zhanghaoming = None, numeric = Map.empty\<rparr>"
          "[]" "ascii ''A''"]
    getAccountKey_prefers_alternate [of empty_account "[]" "[]"]
  by (simp add: or_empty_def empty_account_def ascii_def)

text \<open>
  Claim C4. \<open>safeGetValue\<close> has a result for every getter and label. When the getter
  throws, or returns a number that is \<open>NaN\<close> or not finite, the result is the error
  object with the label in front of the suffix; otherwise it is the value the getter
  returned. There is no third outcome.
\<close>

theorem safeGetValue_tagged:
  "(getter () = Inl e \<longrightarrow> safeGetValue getter label = ErrorObj (label @ data_error))
   \<and> (getter () = Inr (JNum x) \<and> (isNaN x \<or> \<not> isFinite x)
        \<longrightarrow> safeGetValue getter label = ErrorObj (label @ data_error))
   \<and> (getter () = Inr v \<and> (\<forall>y. v = JNum y \<longrightarrow> \<not> isNaN y \<and> isFinite y)
        \<longrightarrow> safeGetValue getter label = Value v)
   \<and> (safeGetValue getter label = ErrorObj (label @ data_error)
        \<or> (\<exists>w. getter () = Inr w \<and> safeGetValue getter label = Value w))"
  by (auto simp: safeGetValue_def split: sum.splits jsval.splits)

theorem safeGetValue_tagged_witness:
  "safeGetValue (\<lambda>_. Inl (JStr (ascii ''boom''))) l_reads = ErrorObj (l_reads @ data_error)
   \<and> safeGetValue (\<lambda>_. Inr (JNum NaN)) l_reads = ErrorObj (l_reads @ data_error)
   \<and> safeGetValue (\<lambda>_. Inr (JNum PInf)) l_reads = ErrorObj (l_reads @ data_error)
   \<and> safeGetValue (\<lambda>_. Inr (JNum (Fin 12000))) l_reads = Value (JNum (Fin 12000))
   \<and> safeGetValue (\<lambda>_. Inr (JStr (ascii ''A''))) l_name = Value (JStr (ascii ''A''))"
  using safeGetValue_tagged
      [of "\<lambda>_. Inl (JStr (ascii ''boom''))" "JStr (ascii ''boom'')" l_reads NaN JUndefined]
    safeGetValue_tagged [of "\<lambda>_. Inr (JNum NaN)" JUndefined l_reads NaN JUndefined]
    safeGetValue_tagged [of "\<lambda>_. Inr (JNum PInf)" JUndefined l_reads PInf JUndefined]
    safeGetValue_tagged [of "\<lambda>_. Inr (JNum (Fin 12000))" JUndefined l_reads NaN "JNum (Fin 12000)"]
    safeGetValue_tagged [of "\<lambda>_. Inr (JStr (ascii ''A''))" JUndefined l_name NaN "JStr (ascii ''A'')"]
  by (simp add: isNaN_def)




section \<open>YearlyAggregator: results\<close>

lemmas yearly_eval =
  series_of_def month_rows_def find_columns_def row_account_def cell_at_def cell_def
  cell_toString_def monthData_of_def metric_at_def parseNumber_yearly_def TARGET_ACCOUNTS_def
  gzh_def zhm_def k_reads_def k_headline_def k_forward_def js_sum_def

lemma js_sum_snoc: "js_sum (xs @ [x]) = js_add (js_sum xs) x"
  by (simp add: js_sum_def)

lemma add_month_stats_of: "add_month (stats_of name xs) e = stats_of name (xs @ [e])"
  by (simp add: add_month_def stats_of_def js_sum_snoc)

lemma init_statsMap_eq: "init_statsMap = stats_map_of (\<lambda>_. [])"
  by (rule ext) (simp add: init_statsMap_def stats_map_of_def TARGET_ACCOUNTS_def init_stats_def
      stats_of_def js_sum_def)

lemma process_row_stats:
  "process_row nts month cols (stats_map_of f) row
    = stats_map_of (\<lambda>name. f name @
        (if row_account nts cols row = Some name then [monthData_of month cols row] else []))"
  by (rule ext) (auto simp: process_row_def stats_map_of_def add_month_stats_of split: option.splits)

lemma process_rows_stats:
  "foldl (process_row nts month cols) (stats_map_of f) rows
    = stats_map_of (\<lambda>name. f name @
        map (monthData_of month cols) (filter (\<lambda>row. row_account nts cols row = Some name) rows))"
proof (induction rows arbitrary: f)
  case Nil
  show ?case by simp
next
  case (Cons row rows)
  have "foldl (process_row nts month cols) (stats_map_of f) (row # rows)
      = foldl (process_row nts month cols)
          (stats_map_of (\<lambda>name. f name @
            (if row_account nts cols row = Some name then [monthData_of month cols row] else [])))
          rows"
    by (simp add: process_row_stats)
  also have "\<dots> = stats_map_of (\<lambda>name. (f name @
        (if row_account nts cols row = Some name then [monthData_of month cols row] else [])) @
        map (monthData_of month cols) (filter (\<lambda>row. row_account nts cols row = Some name) rows))"
    by (rule Cons.IH)
  also have "\<dots> = stats_map_of (\<lambda>name. f name @
        map (monthData_of month cols)
          (filter (\<lambda>row. row_account nts cols row = Some name) (row # rows)))"
    by (rule arg_cong [where f = stats_map_of]) (rule ext, simp)
  finally show ?case .
qed

lemma process_month_stats:
  "snd ms \<noteq> ListThrows \<Longrightarrow>
   process_month nts (stats_map_of f) ms
     = Inr (stats_map_of (\<lambda>name. f name @ month_rows nts name ms))"
  by (cases "snd ms") (simp_all add: process_month_def month_rows_def process_rows_stats)

lemma process_month_ListThrows:
  "snd ms = ListThrows \<Longrightarrow> process_month nts m ms = Inl ServerError"
  by (simp add: process_month_def)

lemma process_months_stats:
  "process_months nts (stats_map_of f) months = Inr m \<Longrightarrow>
   m = stats_map_of (\<lambda>name. f name @ series_of nts name months)"
proof (induction months arbitrary: f)
  case Nil
  then show ?case by (simp add: series_of_def)
next
  case (Cons ms months)
  show ?case
  proof (cases "snd ms = ListThrows")
    case True
    with Cons.prems show ?thesis by (simp add: process_month_ListThrows)
  next
    case False
    from Cons.prems
    have "process_months nts (stats_map_of (\<lambda>name. f name @ month_rows nts name ms)) months = Inr m"
      by (simp add: process_month_stats [OF False])
    then have "m = stats_map_of (\<lambda>name. (f name @ month_rows nts name ms) @ series_of nts name months)"
      by (rule Cons.IH)
    then show ?thesis by (simp add: series_of_def)
  qed
qed

lemma process_months_total:
  "\<forall>ms \<in> set months. snd ms \<noteq> ListThrows \<Longrightarrow> \<exists>m'. process_months nts m months = Inr m'"
proof (induction months arbitrary: m)
  case Nil
  show ?case by simp
next
  case (Cons ms months)
  from Cons.prems have "snd ms \<noteq> ListThrows" by simp
  then have "\<exists>m1. process_month nts m ms = Inr m1"
    by (cases "snd ms") (simp_all add: process_month_def)
  then obtain m1 where "process_month nts m ms = Inr m1" ..
  with Cons show ?case by simp
qed

lemma process_months_append:
  "process_months nts m (xs @ ys)
    = (case process_months nts m xs of Inl e \<Rightarrow> Inl e | Inr m' \<Rightarrow> process_months nts m' ys)"
  by (induction xs arbitrary: m) (simp_all split: sum.splits)

lemma process_month_read_failure:
  "read_failure src \<Longrightarrow> process_month nts m (month, src) = Inr m"
  by (cases src) (simp_all add: read_failure_def process_month_def)

lemma month_rows_month: "e \<in> set (month_rows nts name ms) \<Longrightarrow> md_month e = fst ms"
  by (cases "snd ms") (auto simp: month_rows_def monthData_of_def split: if_splits)

lemma example_series:
  "series_of integer_toString (TARGET_ACCOUNTS ! 0) example_months
    = [\<lparr>md_month = ascii ''202401'', md_reads = Fin 12000, md_headline = Fin 100, md_forward = Fin 5\<rparr>,
       \<lparr>md_month = ascii ''202403'', md_reads = Fin 300, md_headline = Fin 0, md_forward = Fin 0\<rparr>]"
  by (simp add: example_months_def yearly_eval js_eval)

lemma example_no_list_failure: "\<forall>ms \<in> set example_months. snd ms \<noteq> ListThrows"
  by (simp add: example_months_def)

text \<open>
  Claim C5. When the route answers, each tracked account has its statistics object.
  Its series holds, month after month in input order, one entry for each data row
  filed under the account's name and nothing else, so a month without such a row (or
  a month that is passed over) leaves no entry: every entry belongs to an input month
  that has a row for the account. Each of the three totals is the sum of that metric
  over the series, added from 0 in series order, so such a month adds nothing to it.
\<close>

theorem series_sums_to_total:
  assumes "GET_yearly nts months = Inr report"
    and "i < length TARGET_ACCOUNTS"
  shows "\<exists>stats. report_data report ! i = Some stats
    \<and> accountName stats = TARGET_ACCOUNTS ! i
    \<and> monthlyData stats = series_of nts (TARGET_ACCOUNTS ! i) months
    \<and> t_reads (total stats) = js_sum (map md_reads (monthlyData stats))
    \<and> t_headline (total stats) = js_sum (map md_headline (monthlyData stats))
    \<and> t_forward (total stats) = js_sum (map md_forward (monthlyData stats))
    \<and> (\<forall>e \<in> set (monthlyData stats). \<exists>ms \<in> set months.
          md_month e = fst ms \<and> e \<in> set (month_rows nts (TARGET_ACCOUNTS ! i) ms))"
proof -
  from assms(1) obtain m where m: "process_months nts init_statsMap months = Inr m"
    and report: "report = \<lparr>report_data = map m TARGET_ACCOUNTS, report_months = map fst months\<rparr>"
    by (auto simp: GET_yearly_def split: sum.splits)
  from m have "m = stats_map_of (\<lambda>name. [] @ series_of nts name months)"
    unfolding init_statsMap_eq by (rule process_months_stats)
  with assms(2) have "report_data report ! i
      = Some (stats_of (TARGET_ACCOUNTS ! i) (series_of nts (TARGET_ACCOUNTS ! i) months))"
    by (simp add: report stats_map_of_def)
  moreover have "\<exists>ms \<in> set months. md_month e = fst ms \<and> e \<in> set (month_rows nts name ms)"
    if "e \<in> set (series_of nts name months)" for e name
  proof -
    from that obtain ms where "ms \<in> set months" and "e \<in> set (month_rows nts name ms)"
      by (auto simp: series_of_def)
    then show ?thesis using month_rows_month by blast
  qed
  ultimately show ?thesis by (simp add: stats_of_def)
qed

theorem series_sums_to_total_witness:
  "\<exists>stats. report_data (projr (GET_yearly integer_toString example_months)) ! 0 = Some stats
     \<and> map md_month (monthlyData stats) = [ascii ''202401'', ascii ''202403'']
     \<and> map md_reads (monthlyData stats) = [Fin 12000, Fin 300]
     \<and> t_reads (total stats) = Fin 12300
     \<and> t_headline (total stats) = Fin 100
     \<and> t_forward (total stats) = Fin 5"
proof -
  obtain m where "process_months integer_toString init_statsMap example_months = Inr m"
    using process_months_total [OF example_no_list_failure] by blast
  then have ok: "GET_yearly integer_toString example_months
      = Inr (projr (GET_yearly integer_toString example_months))"
    by (simp add: GET_yearly_def)
  have "0 < length TARGET_ACCOUNTS"
    by (simp add: TARGET_ACCOUNTS_def)
  from series_sums_to_total [OF ok this] obtain stats
    where "report_data (projr (GET_yearly integer_toString example_months)) ! 0 = Some stats"
      and "monthlyData stats = series_of integer_toString (TARGET_ACCOUNTS ! 0) example_months"
      and "t_reads (total stats) = js_sum (map md_reads (monthlyData stats))"
      and "t_headline (total stats) = js_sum (map md_headline (monthlyData stats))"
      and "t_forward (total stats) = js_sum (map md_forward (monthlyData stats))"
    by blast
  then show ?thesis
    by (intro exI [of _ stats]) (simp add: example_series js_sum_def round_eval)
qed

lemma month_rows_read_failure: "read_failure src \<Longrightarrow> month_rows nts name (month, src) = []"
  by (cases src) (simp_all add: read_failure_def month_rows_def)

lemma series_of_skip:
  "read_failure src \<Longrightarrow>
   series_of nts name (before @ (month, src) # after)
     = series_of nts name before @ series_of nts name after"
  by (simp add: series_of_def month_rows_read_failure)

lemma process_months_result:
  assumes "\<forall>ms \<in> set months. snd ms \<noteq> ListThrows"
  shows "process_months nts init_statsMap months
    = Inr (stats_map_of (\<lambda>name. series_of nts name months))"
proof -
  obtain m where m: "process_months nts init_statsMap months = Inr m"
    using process_months_total [OF assms] by blast
  then have "m = stats_map_of (\<lambda>name. [] @ series_of nts name months)"
    unfolding init_statsMap_eq by (rule process_months_stats)
  with m show ?thesis by simp
qed

lemma stats_map_of_targets:
  "map (stats_map_of f) TARGET_ACCOUNTS = map (\<lambda>name. Some (stats_of name (f name))) TARGET_ACCOUNTS"
  by (simp add: stats_map_of_def)

text \<open>
  Claim C9. A month whose workbook cannot be read (reading throws, no sheet, fewer
  than two rows) has no entry for any account and leaves the statistics as they
  were: the run over the months gives what it gives without that month. The other
  months are aggregated in full: if listing the folder of no other month throws, the
  route answers with a report that lists every month, and in which each tracked
  account has the series of all its rows in the months before, followed by those of
  the months after, with the totals that are the sums of that series.
\<close>

theorem failed_period_is_skipped:
  assumes "read_failure src"
  shows "process_months nts m (before @ (month, src) # after) = process_months nts m (before @ after)
    \<and> map_sum id report_data (GET_yearly nts (before @ (month, src) # after))
        = map_sum id report_data (GET_yearly nts (before @ after))
    \<and> month_rows nts name (month, src) = []
    \<and> ((\<forall>ms \<in> set (before @ after). snd ms \<noteq> ListThrows)
        \<longrightarrow> GET_yearly nts (before @ (month, src) # after)
            = Inr \<lparr>report_data =
                     map (\<lambda>name. Some (stats_of name
                            (series_of nts name before @ series_of nts name after)))
                       TARGET_ACCOUNTS,
                   report_months = map fst before @ month # map fst after\<rparr>)"
proof -
  have skip: "process_months nts m0 (before @ (month, src) # after)
      = process_months nts m0 (before @ after)" for m0
    by (simp add: process_months_append process_month_read_failure [OF assms] split: sum.splits)
  have "GET_yearly nts (before @ (month, src) # after)
      = Inr \<lparr>report_data =
               map (\<lambda>name. Some (stats_of name
                      (series_of nts name before @ series_of nts name after)))
                 TARGET_ACCOUNTS,
             report_months = map fst before @ month # map fst after\<rparr>"
    if ok: "\<forall>ms \<in> set (before @ after). snd ms \<noteq> ListThrows"
  proof -
    from assms have "src \<noteq> ListThrows"
      by (auto simp: read_failure_def)
    with ok have "\<forall>ms \<in> set (before @ (month, src) # after). snd ms \<noteq> ListThrows"
      by auto
    then have "process_months nts init_statsMap (before @ (month, src) # after)
        = Inr (stats_map_of (\<lambda>name. series_of nts name (before @ (month, src) # after)))"
      by (rule process_months_result)
    then show ?thesis
      by (simp add: GET_yearly_def stats_map_of_targets series_of_skip [OF assms])
  qed
  then show ?thesis
    by (auto simp: skip GET_yearly_def month_rows_read_failure [OF assms] split: sum.splits)
qed

text \<open>
  The three months of the example: the month that cannot be read leaves nothing, and
  the first tracked account has its rows of the two other months, 12000 and 300
  reads, which sum to 12300.
\<close>

theorem failed_period_is_skipped_witness:
  "map_sum id report_data (GET_yearly integer_toString example_months)
     = map_sum id report_data (GET_yearly integer_toString [example_months ! 0, example_months ! 2])
   \<and> (\<exists>report. GET_yearly integer_toString example_months = Inr report
        \<and> report_months report = [ascii ''202401'', ascii ''202402'', ascii ''202403'']
        \<and> map (map_option (\<lambda>stats. (map md_month (monthlyData stats),
                                     map md_reads (monthlyData stats),
                                     t_reads (total stats))))
            (report_data report)
          = [Some ([ascii ''202401'', ascii ''202403''], [Fin 12000, Fin 300], Fin 12300),
             Some ([], [], Fin 0),
             Some ([], [], Fin 0)])"
proof -
  let ?e0 = "example_months ! 0" and ?e2 = "example_months ! 2"
  let ?R = "\<lparr>report_data =
               map (\<lambda>name. Some (stats_of name
                      (series_of integer_toString name [?e0]
                        @ series_of integer_toString name [?e2])))
                 TARGET_ACCOUNTS,
             report_months = map fst [?e0] @ ascii ''202402'' # map fst [?e2]\<rparr>"
  have rf: "read_failure ReadThrows"
    by (simp add: read_failure_def)
  have eq: "[?e0, (ascii ''202402'', ReadThrows), ?e2] = example_months"
    by (simp add: example_months_def)
  have rest: "\<forall>ms \<in> set ([?e0] @ [?e2]). snd ms \<noteq> ListThrows"
    by (simp add: example_months_def)
  note inst = failed_period_is_skipped
      [OF rf, of integer_toString init_statsMap "[?e0]" "ascii ''202402''" "[?e2]" "[]"]
  from inst
  have "map_sum id report_data
        (GET_yearly integer_toString ([?e0] @ (ascii ''202402'', ReadThrows) # [?e2]))
      = map_sum id report_data (GET_yearly integer_toString ([?e0] @ [?e2]))"
    by blast
  then have same: "map_sum id report_data (GET_yearly integer_toString example_months)
      = map_sum id report_data (GET_yearly integer_toString [?e0, ?e2])"
    by (simp only: append_Cons append_Nil eq)
  from inst rest
  have "GET_yearly integer_toString ([?e0] @ (ascii ''202402'', ReadThrows) # [?e2]) = Inr ?R"
    by blast
  then have report: "GET_yearly integer_toString example_months = Inr ?R"
    by (simp only: append_Cons append_Nil eq)
  have months: "report_months ?R = [ascii ''202401'', ascii ''202402'', ascii ''202403'']"
    by (simp add: example_months_def)
  have series: "\<forall>name \<in> set TARGET_ACCOUNTS.
      series_of integer_toString name [?e0] @ series_of integer_toString name [?e2]
      = (if name = TARGET_ACCOUNTS ! 0
         then [\<lparr>md_month = ascii ''202401'', md_reads = Fin 12000, md_headline = Fin 100,
                 md_forward = Fin 5\<rparr>,
               \<lparr>md_month = ascii ''202403'', md_reads = Fin 300, md_headline = Fin 0,
                 md_forward = Fin 0\<rparr>]
         else [])"
    by (simp add: example_months_def yearly_eval js_eval)
  have "report_data ?R
      = map (\<lambda>name. Some (stats_of name
              (if name = TARGET_ACCOUNTS ! 0
               then [\<lparr>md_month = ascii ''202401'', md_reads = Fin 12000, md_headline = Fin 100,
                       md_forward = Fin 5\<rparr>,
                     \<lparr>md_month = ascii ''202403'', md_reads = Fin 300, md_headline = Fin 0,
                       md_forward = Fin 0\<rparr>]
               else [])))
         TARGET_ACCOUNTS"
    using series by (simp cong: map_cong)
  then have data: "map (map_option (\<lambda>stats. (map md_month (monthlyData stats),
                                     map md_reads (monthlyData stats),
                                     t_reads (total stats))))
      (report_data ?R)
      = [Some ([ascii ''202401'', ascii ''202403''], [Fin 12000, Fin 300], Fin 12300),
         Some ([], [], Fin 0),
         Some ([], [], Fin 0)]"
    by (simp add: TARGET_ACCOUNTS_def stats_of_def js_sum_def round_eval)
  have answer: "\<exists>report. GET_yearly integer_toString example_months = Inr report
        \<and> report_months report = [ascii ''202401'', ascii ''202402'', ascii ''202403'']
        \<and> map (map_option (\<lambda>stats. (map md_month (monthlyData stats),
                                     map md_reads (monthlyData stats),
                                     t_reads (total stats))))
            (report_data report)
          = [Some ([ascii ''202401'', ascii ''202403''], [Fin 12000, Fin 300], Fin 12300),
             Some ([], [], Fin 0),
             Some ([], [], Fin 0)]"
    by (rule exI [of _ ?R]) (intro conjI report months data)
  from same answer show ?thesis by (rule conjI)
qed

end
